theory Spec2Isabelle
  imports Complex_Main "HOL-Library.Log_Nat"
begin

section \<open>letterbox: a shallow embedding of \<^verbatim>\<open>main.go\<close>\<close>

text \<open>
  The program pads JPEG images to a fixed aspect ratio. This theory embeds
  \<^verbatim>\<open>parseAspect\<close>, \<^verbatim>\<open>convert\<close>, \<^verbatim>\<open>write\<close>, \<^verbatim>\<open>skip\<close> and the body of
  the closure that \<^verbatim>\<open>main\<close> hands to the semaphore, together with the parts of
  Go's \<^verbatim>\<open>image\<close>, \<^verbatim>\<open>image/draw\<close> and \<^verbatim>\<open>strings\<close> packages they call.

  Conventions.
  \<^item> Go's \<^verbatim>\<open>int\<close> is modelled by \<open>int\<close>: every integer of the program is an image
    coordinate or a sum of two of them, far below \<open>2^63\<close> for any image that fits in
    memory. The one place where a value can leave the 64-bit range, the conversion
    \<^verbatim>\<open>int(float64)\<close>, is modelled with its range check.
  \<^item> \<^verbatim>\<open>float64\<close> is IEEE 754 binary64 with round-to-nearest-even: a sign and an exact
    real magnitude, infinities and NaN.
  \<^item> The operating system and the codecs (\<^verbatim>\<open>os.Stat\<close>, \<^verbatim>\<open>os.Open\<close>,
    \<^verbatim>\<open>image.Decode\<close>, \<^verbatim>\<open>os.Create\<close>, \<^verbatim>\<open>jpeg.Encode\<close>, \<^verbatim>\<open>filepath.Join\<close>) and
    \<^verbatim>\<open>strconv.ParseFloat\<close> are parameters of the functions that call them; each
    function returns the calls it made as a list of events next to its result.
  \<^item> An \<^verbatim>\<open>error\<close> result is \<open>error option\<close>, \<open>None\<close> being \<^verbatim>\<open>nil\<close>.
\<close>

subsection \<open>Errors\<close>

datatype error =
    ErrNotExist                 \<comment> \<open>an error for which \<^verbatim>\<open>os.IsNotExist\<close> holds\<close>
  | ErrOS string                \<comment> \<open>any other error of the operating system\<close>
  | ErrSyntax                   \<comment> \<open>\<^verbatim>\<open>strconv.ErrSyntax\<close>\<close>
  | ErrRange                    \<comment> \<open>\<^verbatim>\<open>strconv.ErrRange\<close>\<close>
  | ErrCodec string             \<comment> \<open>an error of \<^verbatim>\<open>image.Decode\<close> or \<^verbatim>\<open>jpeg.Encode\<close>\<close>
  | ErrNew string               \<comment> \<open>\<^verbatim>\<open>errors.New(msg)\<close>\<close>
  | Wrap error string           \<comment> \<open>\<^verbatim>\<open>errors.Wrap(err, msg)\<close>\<close>

definition IsNotExist :: "error option \<Rightarrow> bool" where
  "IsNotExist err = (err = Some ErrNotExist)"

subsection \<open>Integer division\<close>

text \<open>Go's \<^verbatim>\<open>/\<close> on integers truncates towards zero.\<close>

definition quo :: "int \<Rightarrow> int \<Rightarrow> int" where
  "quo a b = sgn a * sgn b * (\<bar>a\<bar> div \<bar>b\<bar>)"

subsection \<open>float64\<close>

text \<open>
  A \<^verbatim>\<open>float64\<close> is a finite number given by its sign bit (\<open>True\<close> for negative) and
  its magnitude, an infinity with its sign, or NaN. \<open>Finite True 0\<close> is the negative
  zero.
\<close>

datatype float64 = Finite bool real | Infinity bool | NaN

definition f64_val :: "bool \<Rightarrow> real \<Rightarrow> real" where
  "f64_val s m = (if s then - m else m)"

definition pow2 :: "int \<Rightarrow> real" where
  "pow2 e = (if 0 \<le> e then 2 ^ nat e else 1 / 2 ^ nat (- e))"

text \<open>
  \<open>binade x\<close> is the exponent \<open>e\<close> with \<open>2^e \<le> x < 2^(e+1)\<close>, for \<open>x > 0\<close>:
  \<open>floorlog 2 n\<close> is the number of binary digits of \<open>n\<close>.
\<close>

definition binade :: "real \<Rightarrow> int" where
  "binade x = (if 1 \<le> x then int (floorlog 2 (nat \<lfloor>x\<rfloor>)) - 1
               else - int (floorlog 2 (nat (\<lceil>1 / x\<rceil> - 1))))"

definition round_half_even :: "real \<Rightarrow> int" where
  "round_half_even q =
     (let f = \<lfloor>q\<rfloor>; r = q - of_int f
      in if r < 1 / 2 then f
         else if 1 / 2 < r then f + 1
         else if even f then f else f + 1)"

text \<open>
  Rounding a magnitude to 53 significant bits, with the exponent of the unit in the
  last place bounded below by \<open>-1074\<close> (the subnormal numbers) and not bounded above.
\<close>

definition round_mag :: "real \<Rightarrow> real" where
  "round_mag x =
     (if x = 0 then 0
      else let u = pow2 (max (binade x) (- 1022) - 52)
           in of_int (round_half_even (x / u)) * u)"

text \<open>The result of an operation whose exact value has sign \<open>s\<close> and magnitude \<open>x\<close>.\<close>

definition f64_round :: "bool \<Rightarrow> real \<Rightarrow> float64" where
  "f64_round s x =
     (let m = round_mag x in if 2 ^ 1024 \<le> m then Infinity s else Finite s m)"

text \<open>\<^verbatim>\<open>x > y\<close>\<close>

fun f64_gt :: "float64 \<Rightarrow> float64 \<Rightarrow> bool" where
  "f64_gt NaN y = False"
| "f64_gt x NaN = False"
| "f64_gt (Infinity s) (Infinity t) = (\<not> s \<and> t)"
| "f64_gt (Infinity s) (Finite t n) = (\<not> s)"
| "f64_gt (Finite s m) (Infinity t) = t"
| "f64_gt (Finite s m) (Finite t n) = (f64_val t n < f64_val s m)"

text \<open>\<^verbatim>\<open>x / y\<close>\<close>

fun f64_div :: "float64 \<Rightarrow> float64 \<Rightarrow> float64" where
  "f64_div NaN y = NaN"
| "f64_div x NaN = NaN"
| "f64_div (Infinity s) (Infinity t) = NaN"
| "f64_div (Infinity s) (Finite t n) = Infinity (s \<noteq> t)"
| "f64_div (Finite s m) (Infinity t) = Finite (s \<noteq> t) 0"
| "f64_div (Finite s m) (Finite t n) =
     (if n = 0 then (if m = 0 then NaN else Infinity (s \<noteq> t))
      else f64_round (s \<noteq> t) (m / n))"

text \<open>\<^verbatim>\<open>x * y\<close>\<close>

fun f64_mul :: "float64 \<Rightarrow> float64 \<Rightarrow> float64" where
  "f64_mul NaN y = NaN"
| "f64_mul x NaN = NaN"
| "f64_mul (Infinity s) (Infinity t) = Infinity (s \<noteq> t)"
| "f64_mul (Infinity s) (Finite t n) = (if n = 0 then NaN else Infinity (s \<noteq> t))"
| "f64_mul (Finite s m) (Infinity t) = (if m = 0 then NaN else Infinity (s \<noteq> t))"
| "f64_mul (Finite s m) (Finite t n) = f64_round (s \<noteq> t) (m * n)"

text \<open>\<^verbatim>\<open>float64(i)\<close>\<close>

definition f64_of_int :: "int \<Rightarrow> float64" where
  "f64_of_int i = f64_round (i < 0) (of_int \<bar>i\<bar>)"

text \<open>
  \<^verbatim>\<open>int(x)\<close> discards the fraction. When the value does not fit the integer type the
  conversion still succeeds, with a result that depends on the implementation: the
  parameter \<open>impl\<close> gives it.
\<close>

definition int_of_f64 :: "(float64 \<Rightarrow> int) \<Rightarrow> float64 \<Rightarrow> int" where
  "int_of_f64 impl x =
     (case x of
        Finite s m \<Rightarrow>
          (let t = (if s then - \<lfloor>m\<rfloor> else \<lfloor>m\<rfloor>)
           in if - (2 ^ 63) \<le> t \<and> t < 2 ^ 63 then t else impl x)
      | _ \<Rightarrow> impl x)"

subsection \<open>strings.Split and parseAspect\<close>

text \<open>\<^verbatim>\<open>strings.Split(s, sep)\<close> for a separator of one byte.\<close>

fun Split :: "string \<Rightarrow> char \<Rightarrow> string list" where
  "Split [] sep = [[]]"
| "Split (c # s) sep =
     (if c = sep then [] # Split s sep
      else (case Split s sep of
              [] \<Rightarrow> [[c]]
            | p # ps \<Rightarrow> (c # p) # ps))"

text \<open>
  The outcome of \<^verbatim>\<open>parseAspect\<close>: the ratio with a nil error, an error, or the
  run-time panic of an index out of range.
\<close>

datatype 'a outcome = Ok 'a | Err error | Panic

text \<open>
  \<^verbatim>\<open>parseAspect\<close>, lines 144 to 162. \<open>pf\<close> is \<^verbatim>\<open>strconv.ParseFloat(_, 64)\<close>.
  \<^verbatim>\<open>parts[0]\<close> always exists; \<^verbatim>\<open>parts[1]\<close> is read without a check of the length.
\<close>

definition parseAspect :: "(string \<Rightarrow> error + float64) \<Rightarrow> string \<Rightarrow> float64 outcome" where
  "parseAspect pf s =
     (let parts = Split s (CHR '':'')
      in case pf (parts ! 0) of
           Inl err \<Rightarrow> Err err
         | Inr a \<Rightarrow>
             if length parts \<le> 1 then Panic
             else (case pf (parts ! 1) of
                     Inl err \<Rightarrow> Err err
                   | Inr b \<Rightarrow>
                       (let (a', b') = (if f64_gt b a then (b, a) else (a, b))
                        in Ok (f64_div b' a'))))"

text \<open>
  \<^verbatim>\<open>strconv.ParseFloat\<close> on the decimal literals \<^verbatim>\<open>[+-]digits[.digits][e[+-]digits]\<close>:
  the nearest \<^verbatim>\<open>float64\<close>, \<^verbatim>\<open>ErrRange\<close> when that is an infinity, \<^verbatim>\<open>ErrSyntax\<close> for
  a string that is no such literal. Go's function also reads hexadecimal literals,
  underscores between digits, \<^verbatim>\<open>Inf\<close> and \<^verbatim>\<open>NaN\<close>; the theorems below hold for every
  parser, and this one evaluates them on concrete strings.
\<close>

definition is_digit :: "char \<Rightarrow> bool" where
  "is_digit c = (48 \<le> (of_char c :: nat) \<and> (of_char c :: nat) \<le> 57)"

definition digits_value :: "string \<Rightarrow> nat" where
  "digits_value ds = foldl (\<lambda>n c. 10 * n + (of_char c - 48)) 0 ds"

definition read_sign :: "string \<Rightarrow> bool \<times> string" where
  "read_sign s =
     (case s of
        [] \<Rightarrow> (False, [])
      | c # r \<Rightarrow> if c = CHR ''-'' then (True, r)
                else if c = CHR ''+'' then (False, r) else (False, s))"

text \<open>The sign, the digits \<open>m\<close> of the mantissa and the exponent \<open>e\<close> of \<open>m * 10^e\<close>.\<close>

definition decimal_literal :: "string \<Rightarrow> (bool \<times> nat \<times> int) option" where
  "decimal_literal s =
     (let (neg, s1) = read_sign s;
          ip = takeWhile is_digit s1;
          s2 = dropWhile is_digit s1;
          (fp, s3) = (case s2 of
                        [] \<Rightarrow> ([], [])
                      | c # r \<Rightarrow> if c = CHR ''.''
                                then (takeWhile is_digit r, dropWhile is_digit r)
                                else ([], s2));
          m = digits_value (ip @ fp)
      in if ip @ fp = [] then None
         else (case s3 of
                 [] \<Rightarrow> Some (neg, m, - int (length fp))
               | c # r \<Rightarrow>
                   if c = CHR ''e'' \<or> c = CHR ''E''
                   then (let (eneg, ds) = read_sign r
                         in if ds \<noteq> [] \<and> list_all is_digit ds
                            then Some (neg, m,
                                   (if eneg then - int (digits_value ds)
                                    else int (digits_value ds)) - int (length fp))
                            else None)
                   else None))"

definition ParseFloat_decimal :: "string \<Rightarrow> error + float64" where
  "ParseFloat_decimal s =
     (case decimal_literal s of
        None \<Rightarrow> Inl ErrSyntax
      | Some (neg, m, e) \<Rightarrow>
          (case f64_round neg (if 0 \<le> e then real m * 10 ^ nat e
                               else real m / 10 ^ nat (- e)) of
             Infinity t \<Rightarrow> Inl ErrRange
           | f \<Rightarrow> Inr f))"

subsection \<open>Package image: points and rectangles\<close>

datatype point = Point (X: int) (Y: int)

datatype rectangle = Rectangle (Min_r: point) (Max_r: point)

definition ZP :: point where
  "ZP = Point 0 0"

definition ZR :: rectangle where
  "ZR = Rectangle ZP ZP"

text \<open>\<^verbatim>\<open>image.Rect\<close> swaps the coordinates that come in the wrong order.\<close>

definition Rect :: "int \<Rightarrow> int \<Rightarrow> int \<Rightarrow> int \<Rightarrow> rectangle" where
  "Rect x0 y0 x1 y1 =
     (let (x0', x1') = (if x0 > x1 then (x1, x0) else (x0, x1));
          (y0', y1') = (if y0 > y1 then (y1, y0) else (y0, y1))
      in Rectangle (Point x0' y0') (Point x1' y1'))"

definition Dx :: "rectangle \<Rightarrow> int" where
  "Dx r = X (Max_r r) - X (Min_r r)"

definition Dy :: "rectangle \<Rightarrow> int" where
  "Dy r = Y (Max_r r) - Y (Min_r r)"

definition Empty :: "rectangle \<Rightarrow> bool" where
  "Empty r = (X (Min_r r) \<ge> X (Max_r r) \<or> Y (Min_r r) \<ge> Y (Max_r r))"

definition In :: "point \<Rightarrow> rectangle \<Rightarrow> bool" where
  "In p r = (X (Min_r r) \<le> X p \<and> X p < X (Max_r r) \<and>
             Y (Min_r r) \<le> Y p \<and> Y p < Y (Max_r r))"

definition Add_pt :: "point \<Rightarrow> point \<Rightarrow> point" where
  "Add_pt p q = Point (X p + X q) (Y p + Y q)"

definition Sub_pt :: "point \<Rightarrow> point \<Rightarrow> point" where
  "Sub_pt p q = Point (X p - X q) (Y p - Y q)"

definition Add :: "rectangle \<Rightarrow> point \<Rightarrow> rectangle" where
  "Add r p = Rectangle (Add_pt (Min_r r) p) (Add_pt (Max_r r) p)"

definition Intersect :: "rectangle \<Rightarrow> rectangle \<Rightarrow> rectangle" where
  "Intersect r s =
     (let r' = Rectangle
                 (Point (max (X (Min_r r)) (X (Min_r s))) (max (Y (Min_r r)) (Y (Min_r s))))
                 (Point (min (X (Max_r r)) (X (Max_r s))) (min (Y (Max_r r)) (Y (Max_r s))))
      in if Empty r' then ZR else r')"

subsection \<open>Colours and images\<close>

text \<open>
  A colour is the quadruple that its method \<^verbatim>\<open>RGBA()\<close> returns: red, green, blue and
  alpha, each below \<open>65536\<close>. \<^verbatim>\<open>color.Black\<close> is \<^verbatim>\<open>Gray16{0}\<close> and \<^verbatim>\<open>color.White\<close> is
  \<^verbatim>\<open>Gray16{0xffff}\<close>.
\<close>

type_synonym color = "nat \<times> nat \<times> nat \<times> nat"

definition Gray16 :: "nat \<Rightarrow> color" where
  "Gray16 y = (y, y, y, 65535)"

definition Black :: color where
  "Black = Gray16 0"

definition White :: color where
  "White = Gray16 65535"

text \<open>A pixel of an \<^verbatim>\<open>image.RGBA\<close>: four bytes.\<close>

datatype rgba = RGBA nat nat nat nat

text \<open>\<^verbatim>\<open>color.RGBAModel.Convert\<close>: \<^verbatim>\<open>uint8(r >> 8)\<close> on each channel.\<close>

definition RGBAModel :: "color \<Rightarrow> rgba" where
  "RGBAModel c =
     (case c of (r, g, b, a) \<Rightarrow>
        RGBA (r div 256 mod 256) (g div 256 mod 256) (b div 256 mod 256) (a div 256 mod 256))"

text \<open>An \<^verbatim>\<open>image.Image\<close>: its bounds and the colour at each point.\<close>

record image =
  Bounds :: rectangle
  At :: "point \<Rightarrow> color"

text \<open>\<^verbatim>\<open>image.Uniform\<close>: one colour on a rectangle of two thousand million points a side.\<close>

definition Uniform :: "color \<Rightarrow> image" where
  "Uniform c =
     \<lparr>Bounds = Rectangle (Point (- 1000000000) (- 1000000000)) (Point 1000000000 1000000000),
      At = (\<lambda>p. c)\<rparr>"

text \<open>
  An \<^verbatim>\<open>image.RGBA\<close>: its rectangle and its pixels. \<^verbatim>\<open>image.NewRGBA\<close> gives an image
  whose bytes are all zero.
\<close>

record rgba_image =
  RGBA_Rect :: rectangle
  Pix :: "point \<Rightarrow> rgba"

definition NewRGBA :: "rectangle \<Rightarrow> rgba_image" where
  "NewRGBA r = \<lparr>RGBA_Rect = r, Pix = (\<lambda>p. RGBA 0 0 0 0)\<rparr>"

text \<open>\<^verbatim>\<open>(*RGBA).At\<close>: the zero colour outside the rectangle.\<close>

definition RGBA_At :: "rgba_image \<Rightarrow> point \<Rightarrow> rgba" where
  "RGBA_At img p = (if In p (RGBA_Rect img) then Pix img p else RGBA 0 0 0 0)"

subsection \<open>Package image/draw\<close>

text \<open>
  \<^verbatim>\<open>clip\<close> of \<^verbatim>\<open>image/draw\<close> with no mask: the rectangle is cut to the destination's
  bounds and to the source's bounds moved onto the destination, and the source point
  moves with the rectangle's corner.
\<close>

definition clip :: "rectangle \<Rightarrow> rectangle \<Rightarrow> rectangle \<Rightarrow> point \<Rightarrow> rectangle \<times> point" where
  "clip dstb r srcb sp =
     (let orig = Min_r r;
          r1 = Intersect r dstb;
          r2 = Intersect r1 (Add srcb (Sub_pt orig sp));
          dx = X (Min_r r2) - X orig;
          dy = Y (Min_r r2) - Y orig
      in (r2, Point (X sp + dx) (Y sp + dy)))"

text \<open>
  \<^verbatim>\<open>draw.Draw(dst, r, src, sp, draw.Src)\<close>: every point of the clipped rectangle gets
  the source's colour, converted to the destination's colour model; nothing is
  blended.
\<close>

definition Draw :: "rgba_image \<Rightarrow> rectangle \<Rightarrow> image \<Rightarrow> point \<Rightarrow> rgba_image" where
  "Draw dst r src sp =
     (let (r', sp') = clip (RGBA_Rect dst) r (Bounds src) sp
      in if Empty r' then dst
         else dst\<lparr>Pix :=
                (\<lambda>p. if In p r'
                      then RGBAModel (At src (Add_pt sp' (Sub_pt p (Min_r r'))))
                      else Pix dst p)\<rparr>)"

subsection \<open>convert: the letterbox\<close>

text \<open>
  Lines 93 to 98 of \<^verbatim>\<open>convert\<close>: the source's width and height are read from the
  maximum corner of its bounds, the destination keeps the width, and its height is the
  product of the width and the ratio, converted to \<^verbatim>\<open>int\<close>.
\<close>

definition dimensions :: "(float64 \<Rightarrow> int) \<Rightarrow> image \<Rightarrow> float64 \<Rightarrow> int \<times> int \<times> int \<times> int" where
  "dimensions impl src ratio =
     (let sb = Bounds src;
          sw = X (Max_r sb);
          sh = Y (Max_r sb);
          dw = sw;
          dh = int_of_f64 impl (f64_mul (f64_of_int dw) ratio)
      in (sw, sh, dw, dh))"

text \<open>Lines 104 to 109: the rectangle \<^verbatim>\<open>dr\<close>.\<close>

definition dst_rect :: "int \<Rightarrow> int \<Rightarrow> int \<Rightarrow> int \<Rightarrow> rectangle" where
  "dst_rect sw sh dw dh =
     Rect (quo dw 2 - quo sw 2) (quo dh 2 - quo sh 2) (quo dw 2 + dw) (quo dh 2 + sh)"

text \<open>
  Lines 100 to 118: the new image, filled with the background colour by the first
  \<^verbatim>\<open>draw.Draw\<close>.
\<close>

definition canvas :: "(float64 \<Rightarrow> int) \<Rightarrow> image \<Rightarrow> bool \<Rightarrow> float64 \<Rightarrow> rgba_image" where
  "canvas impl src white ratio =
     (let (sw, sh, dw, dh) = dimensions impl src ratio;
          dst = NewRGBA (Rect 0 0 dw dh);
          db = RGBA_Rect dst;
          bg = (if white then White else Black)
      in Draw dst db (Uniform bg) ZP)"

text \<open>
  Lines 93 to 119: from the decoded source to the image that is written. The second
  \<^verbatim>\<open>draw.Draw\<close> copies the source into the rectangle \<^verbatim>\<open>dr\<close>.
\<close>

definition letterbox :: "(float64 \<Rightarrow> int) \<Rightarrow> image \<Rightarrow> bool \<Rightarrow> float64 \<Rightarrow> rgba_image" where
  "letterbox impl src white ratio =
     (let (sw, sh, dw, dh) = dimensions impl src ratio;
          dr = dst_rect sw sh dw dh
      in Draw (canvas impl src white ratio) dr src (Min_r (Bounds src)))"

text \<open>
  The rectangle that the second \<^verbatim>\<open>draw.Draw\<close> writes: \<^verbatim>\<open>dr\<close> after \<^verbatim>\<open>clip\<close>.
\<close>

definition composited :: "(float64 \<Rightarrow> int) \<Rightarrow> image \<Rightarrow> float64 \<Rightarrow> rectangle" where
  "composited impl src ratio =
     (let (sw, sh, dw, dh) = dimensions impl src ratio
      in fst (clip (Rect 0 0 dw dh) (dst_rect sw sh dw dh) (Bounds src) (Min_r (Bounds src))))"

subsection \<open>The operating system, write and convert\<close>

text \<open>
  What the program asks of its environment. A file is named by its path;
  \<open>Stat\<close> gives the modification time of a file that exists.
\<close>

record system =
  Join :: "string \<Rightarrow> string \<Rightarrow> string"
  Stat :: "string \<Rightarrow> error + int"
  Open :: "string \<Rightarrow> error option"
  Decode :: "string \<Rightarrow> error + image"
  Create :: "string \<Rightarrow> error option"
  Encode :: "string \<Rightarrow> rgba_image \<Rightarrow> nat \<Rightarrow> error option"

datatype event =
    EvOpen string                       \<comment> \<open>\<^verbatim>\<open>os.Open(path)\<close>\<close>
  | EvDecode string                     \<comment> \<open>\<^verbatim>\<open>image.Decode(f)\<close>\<close>
  | EvClose string                      \<comment> \<open>\<^verbatim>\<open>f.Close()\<close>\<close>
  | EvCreate string                     \<comment> \<open>\<^verbatim>\<open>os.Create(path)\<close>\<close>
  | EvEncode string rgba_image nat      \<comment> \<open>\<^verbatim>\<open>jpeg.Encode(f, img, &jpeg.Options{Quality: q})\<close>\<close>
  | LogCropping string
  | LogAlreadyProcessed string error
  | LogFatalConverting string error

text \<open>\<^verbatim>\<open>write\<close>, lines 126 to 141 (\<open>write\<close> is a keyword of Isabelle).\<close>

definition write_jpeg :: "system \<Rightarrow> rgba_image \<Rightarrow> string \<Rightarrow> event list \<times> error option" where
  "write_jpeg sys img path =
     (case Create sys path of
        Some err \<Rightarrow> ([EvCreate path], Some (Wrap err ''creating''))
      | None \<Rightarrow>
          (case Encode sys path img 90 of
             Some err \<Rightarrow> ([EvCreate path, EvEncode path img 90], Some (Wrap err ''encoding''))
           | None \<Rightarrow> ([EvCreate path, EvEncode path img 90], None)))"

text \<open>
  \<^verbatim>\<open>convert\<close>, lines 79 to 123. The deferred \<^verbatim>\<open>f.Close()\<close> runs when the function
  returns after a successful \<^verbatim>\<open>os.Open\<close>.
\<close>

definition convert ::
  "system \<Rightarrow> (float64 \<Rightarrow> int) \<Rightarrow> string \<Rightarrow> string \<Rightarrow> bool \<Rightarrow> float64 \<Rightarrow> event list \<times> error option" where
  "convert sys impl path dir white ratio =
     (case Open sys path of
        Some err \<Rightarrow> ([EvOpen path], Some (Wrap err ''opening''))
      | None \<Rightarrow>
          (case Decode sys path of
             Inl err \<Rightarrow>
               ([EvOpen path, EvDecode path, EvClose path], Some (Wrap err ''decoding''))
           | Inr src \<Rightarrow>
               (let dst = letterbox impl src white ratio;
                    (evs, err) = write_jpeg sys dst (Join sys dir path)
                in ([EvOpen path, EvDecode path] @ evs @ [EvClose path], err))))"

subsection \<open>skip and the task of the dispatcher\<close>

text \<open>
  \<^verbatim>\<open>skip\<close>, lines 183 to 205. A non-nil result makes the caller skip the image.
  \<^verbatim>\<open>Before\<close> on modification times is the strict order.
\<close>

definition skip :: "system \<Rightarrow> string \<Rightarrow> string \<Rightarrow> error option" where
  "skip sys dir path =
     (let dest = Join sys dir path
      in case Stat sys dest of
           Inl err \<Rightarrow> if IsNotExist (Some err) then None else Some err
         | Inr fdest \<Rightarrow>
             (case Stat sys path of
                Inl e \<Rightarrow> Some e
              | Inr fsrc \<Rightarrow> if fsrc < fdest then Some (ErrNew ''already exist'') else None))"

text \<open>How the closure ends: it returns, or \<^verbatim>\<open>log.Fatalf\<close> ends the process.\<close>

datatype ending = Returned | Exited

text \<open>
  The closure of lines 59 to 71, run for one path with the counter \<^verbatim>\<open>total\<close>:
  the events, the counter afterwards and how the closure ended.
\<close>

definition task ::
  "system \<Rightarrow> (float64 \<Rightarrow> int) \<Rightarrow> string \<Rightarrow> bool \<Rightarrow> float64 \<Rightarrow> bool \<Rightarrow> string \<Rightarrow> int
     \<Rightarrow> event list \<times> int \<times> ending" where
  "task sys impl dir white ratio force path n =
     (let run = (let (evs, err) = convert sys impl path dir white ratio
                 in case err of
                      Some e \<Rightarrow> (LogCropping path # evs @ [LogFatalConverting path e], n, Exited)
                    | None \<Rightarrow> (LogCropping path # evs, n, Returned))
      in case skip sys dir path of
           Some err \<Rightarrow>
             if \<not> force
             then ([LogCropping path, LogAlreadyProcessed path err], n - 1, Returned)
             else run
         | None \<Rightarrow> run)"

subsection \<open>Concrete inputs\<close>

text \<open>
  An environment in which \<^verbatim>\<open>filepath.Join\<close> puts a slash between its arguments,
  \<^verbatim>\<open>os.Stat\<close> and \<^verbatim>\<open>image.Decode\<close> answer as given, and every other call succeeds.
\<close>

definition system_of :: "(string \<Rightarrow> error + int) \<Rightarrow> (string \<Rightarrow> error + image) \<Rightarrow> system" where
  "system_of st dec =
     \<lparr>Join = (\<lambda>d p. d @ ''/'' @ p),
      Stat = st,
      Open = (\<lambda>p. None),
      Decode = dec,
      Create = (\<lambda>p. None),
      Encode = (\<lambda>p img q. None)\<rparr>"

text \<open>An image of the given width and height at the origin, and its colours.\<close>

definition image_of :: "int \<Rightarrow> int \<Rightarrow> (point \<Rightarrow> color) \<Rightarrow> image" where
  "image_of w h f = \<lparr>Bounds = Rectangle (Point 0 0) (Point w h), At = f\<rparr>"

definition red :: color where
  "red = (65535, 0, 0, 65535)"

definition blue :: color where
  "blue = (0, 0, 65535, 65535)"

text \<open>What \<^verbatim>\<open>int(x)\<close> gives on amd64 when the value is out of range.\<close>

definition impl_amd64 :: "float64 \<Rightarrow> int" where
  "impl_amd64 x = - (2 ^ 63)"

section \<open>Properties\<close>

subsection \<open>Evaluation and arithmetic\<close>

lemmas f64_eval = f64_of_int_def f64_round_def round_mag_def round_half_even_def binade_def
  pow2_def compute_floorlog int_of_f64_def Let_def

lemma quo_nonneg: "0 \<le> a \<Longrightarrow> quo a 2 = a div 2"
  by (simp add: quo_def sgn_if)

lemma dimensions_4_3: "dimensions impl (image_of 4 3 f) (Finite False (9 / 16)) = (4, 3, 4, 2)"
  by (simp add: dimensions_def image_of_def f64_eval)

subsection \<open>The skip check\<close>

text \<open>
  Claim C3. With the destination path \<open>Join sys dir path\<close>: when the destination does
  not exist, \<^verbatim>\<open>skip\<close> returns nil (process); when the destination exists and the
  source's modification time is strictly before the destination's, it returns the
  error \<^verbatim>\<open>already exist\<close> (skip); when the destination exists and the source's
  modification time is not strictly before, it returns nil (process).
\<close>

theorem skip_decision:
  "(Stat sys (Join sys dir path) = Inl ErrNotExist \<longrightarrow> skip sys dir path = None) \<and>
   (Stat sys (Join sys dir path) = Inr fdest \<and> Stat sys path = Inr fsrc \<and> fsrc < fdest
      \<longrightarrow> skip sys dir path = Some (ErrNew ''already exist'')) \<and>
   (Stat sys (Join sys dir path) = Inr fdest \<and> Stat sys path = Inr fsrc \<and> \<not> fsrc < fdest
      \<longrightarrow> skip sys dir path = None)"
  by (simp add: skip_def IsNotExist_def)

text \<open>
  The three cases at \<^verbatim>\<open>a.jpg\<close> and the directory \<^verbatim>\<open>out\<close>: no destination; source
  of time 5 and destination of time 9; source and destination both of time 9.
\<close>

theorem skip_decision_witness:
  "skip (system_of (\<lambda>p. if p = ''a.jpg'' then Inr 5 else Inl ErrNotExist)
          (\<lambda>p. Inl (ErrCodec ''''))) ''out'' ''a.jpg'' = None \<and>
   skip (system_of (\<lambda>p. if p = ''a.jpg'' then Inr 5
                        else if p = ''out/a.jpg'' then Inr 9 else Inl ErrNotExist)
          (\<lambda>p. Inl (ErrCodec ''''))) ''out'' ''a.jpg'' = Some (ErrNew ''already exist'') \<and>
   skip (system_of (\<lambda>p. if p = ''a.jpg'' then Inr 9
                        else if p = ''out/a.jpg'' then Inr 9 else Inl ErrNotExist)
          (\<lambda>p. Inl (ErrCodec ''''))) ''out'' ''a.jpg'' = None"
  using
    skip_decision [of "system_of (\<lambda>p. if p = ''a.jpg'' then Inr 5 else Inl ErrNotExist)
                         (\<lambda>p. Inl (ErrCodec ''''))" "''out''" "''a.jpg''"]
    skip_decision [of "system_of (\<lambda>p. if p = ''a.jpg'' then Inr 5
                         else if p = ''out/a.jpg'' then Inr 9 else Inl ErrNotExist)
                         (\<lambda>p. Inl (ErrCodec ''''))" "''out''" "''a.jpg''" 9 5]
    skip_decision [of "system_of (\<lambda>p. if p = ''a.jpg'' then Inr 9
                         else if p = ''out/a.jpg'' then Inr 9 else Inl ErrNotExist)
                         (\<lambda>p. Inl (ErrCodec ''''))" "''out''" "''a.jpg''" 9 9]
  by (simp add: system_of_def)

text \<open>
  Claim C7. When a stat of the skip check fails with an error \<open>e\<close> that is not
  not-found (the stat of the destination, or the stat of the source once the
  destination exists) and the force flag is not set, \<^verbatim>\<open>skip\<close> returns \<open>e\<close>, and
  the closure logs it, takes one off the counter and returns: no call of
  \<^verbatim>\<open>convert\<close> is among its events.
\<close>

theorem stat_failure_not_processed:
  assumes "e \<noteq> ErrNotExist"
    and "Stat sys (Join sys dir path) = Inl e \<or>
         (Stat sys (Join sys dir path) = Inr fdest \<and> Stat sys path = Inl e)"
  shows "skip sys dir path = Some e \<and>
         task sys impl dir white ratio False path n =
           ([LogCropping path, LogAlreadyProcessed path e], n - 1, Returned)"
  using assms by (auto simp add: skip_def task_def IsNotExist_def)

theorem stat_failure_not_processed_witness:
  "ErrOS ''permission denied'' \<noteq> ErrNotExist \<and>
   skip (system_of (\<lambda>p. Inl (ErrOS ''permission denied'')) (\<lambda>p. Inl (ErrCodec '''')))
     ''out'' ''a.jpg'' = Some (ErrOS ''permission denied'') \<and>
   task (system_of (\<lambda>p. Inl (ErrOS ''permission denied'')) (\<lambda>p. Inl (ErrCodec '''')))
     impl_amd64 ''out'' False (Finite False (9 / 16)) False ''a.jpg'' 2 =
     ([LogCropping ''a.jpg'', LogAlreadyProcessed ''a.jpg'' (ErrOS ''permission denied'')],
      1, Returned)"
  using stat_failure_not_processed [of "ErrOS ''permission denied''"
     "system_of (\<lambda>p. Inl (ErrOS ''permission denied'')) (\<lambda>p. Inl (ErrCodec ''''))"
     "''out''" "''a.jpg''" 0 impl_amd64 False "Finite False (9 / 16)" 2]
  by (simp add: system_of_def)

subsection \<open>The placement rectangle\<close>

text \<open>
  Claim C2. For a source whose maximum corner is \<open>(sw, sh)\<close> with \<open>sw\<close> and \<open>sh\<close> not
  negative, and the destination dimensions \<open>(dw, dh)\<close> that \<^verbatim>\<open>convert\<close> computes, the
  rectangle \<^verbatim>\<open>dr\<close> is exactly left \<open>dw/2 - sw/2\<close>, top \<open>dh/2 - sh/2\<close>, right
  \<open>dw/2 + dw\<close>, bottom \<open>dh/2 + sh\<close>, in Go's integer division: \<^verbatim>\<open>image.Rect\<close> swaps
  nothing.
\<close>

theorem dst_rect_exact:
  assumes "dimensions impl src ratio = (sw, sh, dw, dh)" and "0 \<le> sw" and "0 \<le> sh"
  shows "dst_rect sw sh dw dh =
           Rectangle (Point (quo dw 2 - quo sw 2) (quo dh 2 - quo sh 2))
                     (Point (quo dw 2 + dw) (quo dh 2 + sh))"
proof -
  from assms(1) have dw: "dw = sw"
    by (simp add: dimensions_def Let_def)
  have x: "\<not> quo dw 2 - quo sw 2 > quo dw 2 + dw"
    using assms(2) dw by (simp add: quo_nonneg)
  have "quo sh 2 \<ge> 0"
    using assms(3) by (simp add: quo_nonneg)
  then have y: "\<not> quo dh 2 - quo sh 2 > quo dh 2 + sh"
    using assms(3) by simp
  show ?thesis
    using x y by (simp add: dst_rect_def Rect_def)
qed

theorem dst_rect_exact_witness:
  "dimensions impl_amd64 (image_of 4 3 (\<lambda>p. red)) (Finite False (9 / 16)) = (4, 3, 4, 2) \<and>
   (0::int) \<le> 4 \<and> (0::int) \<le> 3 \<and>
   dst_rect 4 3 4 2 = Rectangle (Point 0 0) (Point 6 4)"
  using dst_rect_exact [of impl_amd64 "image_of 4 3 (\<lambda>p. red)" "Finite False (9 / 16)" 4 3 4 2]
  by (simp add: dimensions_4_3 quo_def)

subsection \<open>The encoder\<close>

text \<open>
  Claim C9, the part that the code does not do: \<^verbatim>\<open>write\<close> creates the file and
  encodes the image at quality 90, and it never closes the file it created, whatever
  the environment answers. (\<^verbatim>\<open>convert\<close> closes the file it opened.)
\<close>

theorem write_never_closes:
  "EvClose p \<notin> set (fst (write_jpeg sys img path))"
  by (simp add: write_jpeg_def split: option.splits)

end
